theory Spec2Isabelle
  imports Complex_Main
begin

chapter \<open>Lab report processor: layout reconstruction, field extraction, formatting\<close>

text \<open>
  A shallow embedding of the Python sources \<^verbatim>\<open>app/text_extractor.py\<close>,
  \<^verbatim>\<open>app/image_processor.py\<close>, \<^verbatim>\<open>app/utils.py\<close>, \<^verbatim>\<open>app/lab_test_parser.py\<close> and
  \<^verbatim>\<open>app/main.py\<close>.

  Conventions of the embedding.
  \<^item> Python \<^verbatim>\<open>int\<close> is \<^typ>\<open>int\<close> (\<^typ>\<open>nat\<close> for indices and lengths). A Python \<^verbatim>\<open>float\<close>
    is its exact rational value: binary64 rounding is not modelled.
  \<^item> A Python exception is a value \<open>Inl e\<close> of a sum type \<open>py_error + 'a\<close>.
  \<^item> OpenCV, NumPy and Tesseract are collaborators outside the repository. What they return
    is an input of the model (word boxes, contours, recognised text); \<^verbatim>\<open>np.histogram\<close> is
    modelled from its documented behaviour.
\<close>

section \<open>Definitions\<close>

datatype py_error = ValueError | ZeroDivisionError | AttributeError | IndexError | ExternalError

subsection \<open>Word boxes and line grouping (\<^verbatim>\<open>TextExtractor._group_by_lines\<close>)\<close>

text \<open>The dictionaries built by \<^verbatim>\<open>extract_text_with_boxes\<close>.\<close>

record text_box =
  bx_text :: string
  bx_confidence :: int
  bx_x :: int
  bx_y :: int
  bx_width :: int
  bx_height :: int

text \<open>
  The loop of \<^verbatim>\<open>_group_by_lines\<close> over \<^verbatim>\<open>sorted_boxes[1:]\<close>. Its state is the list
  \<^verbatim>\<open>lines\<close>, the list \<^verbatim>\<open>current_line\<close> and \<^verbatim>\<open>y_tolerance\<close>. \<^verbatim>\<open>current_line\<close> is never
  empty: it is kept as its first element \<open>seed\<close> (\<^verbatim>\<open>current_line[0]\<close>) and the boxes appended
  since, so \<^verbatim>\<open>current_line[0]\<close> cannot fail and the final test \<^verbatim>\<open>if current_line\<close> is true.
  \<^verbatim>\<open>y_tolerance = line_height * 0.5\<close> is a float; \<^verbatim>\<open>sorted\<close> is stable, as \<^const>\<open>sort_key\<close> is.
\<close>

fun group_loop ::
  "text_box list list \<Rightarrow> text_box \<Rightarrow> text_box list \<Rightarrow> rat \<Rightarrow> text_box list \<Rightarrow> text_box list list"
where
  "group_loop lines seed appended y_tolerance [] =
     lines @ [sort_key bx_x (seed # appended)]"
| "group_loop lines seed appended y_tolerance (box # rest) =
     (let current_y = bx_y seed in
      if \<bar>of_int (bx_y box - current_y)\<bar> \<le> y_tolerance
      then group_loop lines seed (appended @ [box]) y_tolerance rest
      else group_loop (lines @ [sort_key bx_x (seed # appended)]) box []
             (of_int (bx_height box) * (1 / 2)) rest)"

definition group_by_lines :: "text_box list \<Rightarrow> text_box list list" where
  "group_by_lines text_boxes =
     (case sort_key bx_y text_boxes of
        [] \<Rightarrow> []
      | first # rest \<Rightarrow> group_loop [] first [] (of_int (bx_height first) * (1 / 2)) rest)"

text \<open>
  The line grouping as the specification words it: on the boxes sorted by top y, a line is
  seeded by the first remaining box; its reference y and its tolerance (half the seed's
  height) stay fixed; the following boxes join while they are within the tolerance of the
  reference; the first box that is not closes the line and seeds the next one; each line is
  sorted by x.
\<close>

definition joins_line :: "text_box \<Rightarrow> text_box \<Rightarrow> bool" where
  "joins_line seed box \<longleftrightarrow>
     \<bar>of_int (bx_y box) - of_int (bx_y seed)\<bar> \<le> (1 / 2 :: rat) * of_int (bx_height seed)"

function spec_lines :: "text_box list \<Rightarrow> text_box list list" where
  "spec_lines [] = []"
| "spec_lines (seed # remaining) =
     sort_key bx_x (seed # takeWhile (joins_line seed) remaining)
       # spec_lines (dropWhile (joins_line seed) remaining)"
  by pat_completeness auto
termination
  by (relation "measure length") (auto simp: less_Suc_eq_le length_dropWhile_le)

definition spec_group_by_lines :: "text_box list \<Rightarrow> text_box list list" where
  "spec_group_by_lines text_boxes = spec_lines (sort_key bx_y text_boxes)"

subsection \<open>Python string primitives used by the layout code\<close>

text \<open>
  A Python \<^verbatim>\<open>str\<close> is modelled as a \<^typ>\<open>string\<close> whose characters are the code points
  below 256. \<^verbatim>\<open>str.isspace\<close> holds there for the code points 9 to 13, 28 to 32, 133 and 160;
  \<^verbatim>\<open>str.strip()\<close> removes such characters at both ends.
\<close>

definition py_isspace :: "char \<Rightarrow> bool" where
  "py_isspace c \<longleftrightarrow>
     (let n = (of_char c :: int) in (9 \<le> n \<and> n \<le> 13) \<or> (28 \<le> n \<and> n \<le> 32) \<or> n = 133 \<or> n = 160)"

definition strip :: "string \<Rightarrow> string" where
  "strip s = rev (dropWhile py_isspace (rev (dropWhile py_isspace s)))"

text \<open>\<^verbatim>\<open>sep.join(parts)\<close>.\<close>

fun join_with :: "string \<Rightarrow> string list \<Rightarrow> string" where
  "join_with sep [] = []"
| "join_with sep [p] = p"
| "join_with sep (p # q # ps) = p @ sep @ join_with sep (q # ps)"

subsection \<open>Structured lines (\<^verbatim>\<open>TextExtractor.extract_structured_data\<close>)\<close>

record structured_line =
  ln_text :: string
  ln_x :: int
  ln_y :: int
  ln_width :: int
  ln_height :: int

text \<open>\<^verbatim>\<open>min\<close> and \<^verbatim>\<open>max\<close> of a sequence raise \<^verbatim>\<open>ValueError\<close> when it is empty.\<close>

definition py_min :: "'a::linorder list \<Rightarrow> py_error + 'a" where
  "py_min vs = (case vs of [] \<Rightarrow> Inl ValueError | v # others \<Rightarrow> Inr (fold min others v))"

definition py_max :: "'a::linorder list \<Rightarrow> py_error + 'a" where
  "py_max vs = (case vs of [] \<Rightarrow> Inl ValueError | v # others \<Rightarrow> Inr (fold max others v))"

definition line_of_boxes :: "text_box list \<Rightarrow> py_error + structured_line" where
  "line_of_boxes line =
     (case (py_min (map bx_x line), py_min (map bx_y line),
            py_max (map (\<lambda>b. bx_x b + bx_width b) line),
            py_max (map (\<lambda>b. bx_y b + bx_height b) line)) of
        (Inr x0, Inr y0, Inr x1, Inr y1) \<Rightarrow>
          Inr \<lparr>ln_text = join_with '' '' (map bx_text line),
               ln_x = x0, ln_y = y0, ln_width = x1 - x0, ln_height = y1 - y0\<rparr>
      | _ \<Rightarrow> Inl ValueError)"

text \<open>A loop that appends \<open>f item\<close> for every item and is left by the first exception.\<close>

fun collect_results :: "('a \<Rightarrow> py_error + 'b) \<Rightarrow> 'a list \<Rightarrow> py_error + 'b list" where
  "collect_results f [] = Inr []"
| "collect_results f (item # items) =
     (case f item of
        Inl e \<Rightarrow> Inl e
      | Inr r \<Rightarrow> (case collect_results f items of Inl e \<Rightarrow> Inl e | Inr rs \<Rightarrow> Inr (r # rs)))"

text \<open>
  The argument is the list \<^verbatim>\<open>extract_text_with_boxes(image)\<close> returned (Tesseract's word
  boxes).
\<close>

definition extract_structured_data :: "text_box list \<Rightarrow> py_error + structured_line list" where
  "extract_structured_data text_boxes = collect_results line_of_boxes (group_by_lines text_boxes)"

subsection \<open>Column detection (\<^verbatim>\<open>TextExtractor._detect_columns\<close>)\<close>

text \<open>
  \<^verbatim>\<open>np.histogram(a, bins=bins, range=(first_edge, last_edge))\<close> as NumPy documents it:
  \<^verbatim>\<open>ValueError\<close> when \<^verbatim>\<open>first_edge > last_edge\<close>; a range of width zero is widened by 0.5 on
  both sides; the edges are \<^verbatim>\<open>linspace(first_edge, last_edge, bins + 1)\<close>; every bin is
  half-open but the last, which is closed; values outside the range are not counted.
\<close>

definition np_histogram :: "rat list \<Rightarrow> nat \<Rightarrow> rat \<times> rat \<Rightarrow> py_error + nat list \<times> rat list" where
  "np_histogram a bins rng =
     (let (first_edge, last_edge) = rng in
      if first_edge > last_edge then Inl ValueError
      else
        let (lo, hi) = (if first_edge = last_edge then (first_edge - 1 / 2, last_edge + 1 / 2)
                        else (first_edge, last_edge));
            bin_edges = map (\<lambda>i. lo + of_nat i * (hi - lo) / of_nat bins) [0..<Suc bins];
            hist = map (\<lambda>i. length (filter
                      (\<lambda>v. bin_edges ! i \<le> v \<and>
                           (v < bin_edges ! Suc i \<or> (Suc i = bins \<and> v = bin_edges ! Suc i))) a))
                     [0..<bins]
        in Inr (hist, bin_edges))"

text \<open>The final loop of \<^verbatim>\<open>_detect_columns\<close> over \<^verbatim>\<open>range(len(column_starts))\<close>.\<close>

fun column_bounds :: "rat list \<Rightarrow> rat \<Rightarrow> (rat \<times> rat) list" where
  "column_bounds [] x_max = []"
| "column_bounds [start] x_max = [(start, x_max)]"
| "column_bounds (start # nxt # others) x_max = (start, nxt - 1) # column_bounds (nxt # others) x_max"

definition peak_indices :: "nat list \<Rightarrow> nat list" where
  "peak_indices hist =
     filter (\<lambda>i. hist ! i > hist ! (i - 1) \<and> hist ! i > hist ! (i + 1) \<and> hist ! i > 1)
       [1..<length hist - 1]"

definition detect_columns :: "structured_line list \<Rightarrow> py_error + (rat \<times> rat) list" where
  "detect_columns lines =
     (if lines = [] then Inr []
      else
        let x_starts = map (\<lambda>l. of_int (ln_x l)) lines;
            x_ends = map (\<lambda>l. of_int (ln_x l + ln_width l)) lines
        in case (py_min x_starts, py_max x_ends) of
             (Inr x_min, Inr x_max) \<Rightarrow>
               (case np_histogram x_starts 20 (x_min, x_max) of
                  Inl e \<Rightarrow> Inl e
                | Inr (hist, bin_edges) \<Rightarrow>
                    let column_starts = map (\<lambda>i. bin_edges ! i) (peak_indices hist);
                        column_starts' =
                          (case column_starts of
                             [] \<Rightarrow> [x_min]
                           | c # _ \<Rightarrow> if c > x_min + 20 then x_min # column_starts
                                      else column_starts)
                    in Inr (column_bounds column_starts' x_max))
           | _ \<Rightarrow> Inl ValueError)"

subsection \<open>Cell assignment (\<^verbatim>\<open>TextExtractor.extract_table_data\<close>)\<close>

text \<open>The inner loop: the index of the first column whose widened interval holds \<open>lx\<close>.\<close>

fun find_column :: "(rat \<times> rat) list \<Rightarrow> rat \<Rightarrow> nat option" where
  "find_column [] lx = None"
| "find_column ((col_start, col_end) # cols) lx =
     (if lx \<ge> col_start - 10 \<and> lx < col_end + 10 then Some 0
      else map_option Suc (find_column cols lx))"

text \<open>\<^verbatim>\<open>any(cell for cell in current_row)\<close>: some cell is a non-empty string.\<close>

definition any_cell :: "string list \<Rightarrow> bool" where
  "any_cell current_row = list_ex (\<lambda>cell. cell \<noteq> []) current_row"

text \<open>
  The outer loop, with its state \<^verbatim>\<open>table_data\<close> and \<^verbatim>\<open>current_row\<close>; the last equation is
  the code after the loop.
\<close>

fun table_loop ::
  "(rat \<times> rat) list \<Rightarrow> string list list \<Rightarrow> string list \<Rightarrow> structured_line list
     \<Rightarrow> string list list"
where
  "table_loop columns table_data current_row (line # rest) =
     (case find_column columns (of_int (ln_x line)) of
        Some i \<Rightarrow> table_loop columns table_data (current_row[i := strip (ln_text line)]) rest
      | None \<Rightarrow>
          if any_cell current_row
          then table_loop columns (table_data @ [current_row]) (replicate (length columns) []) rest
          else table_loop columns table_data current_row rest)"
| "table_loop columns table_data current_row [] =
     (if any_cell current_row then table_data @ [current_row] else table_data)"

definition extract_table_data :: "text_box list \<Rightarrow> py_error + string list list" where
  "extract_table_data text_boxes =
     (case extract_structured_data text_boxes of
        Inl e \<Rightarrow> Inl e
      | Inr lines \<Rightarrow>
          (case detect_columns lines of
             Inl e \<Rightarrow> Inl e
           | Inr columns \<Rightarrow> Inr (table_loop columns [] (replicate (length columns) []) lines)))"

subsection \<open>Table regions (\<^verbatim>\<open>detect_table_regions\<close>)\<close>

text \<open>
  What OpenCV reports of a contour found by \<^verbatim>\<open>cv2.findContours\<close>: its \<^verbatim>\<open>cv2.contourArea\<close>
  and its \<^verbatim>\<open>cv2.boundingRect\<close> \<open>(x, y, w, h)\<close>. The list of contours is an input of the model.
\<close>

record contour =
  ct_area :: rat
  ct_rect :: "int \<times> int \<times> int \<times> int"

text \<open>
  The loop over the contours; \<^verbatim>\<open>w / h\<close> is Python's true division, which raises
  \<^verbatim>\<open>ZeroDivisionError\<close> for \<open>h = 0\<close>.
\<close>

fun regions_loop ::
  "(int \<times> int \<times> int \<times> int) list \<Rightarrow> contour list \<Rightarrow> py_error + (int \<times> int \<times> int \<times> int) list"
where
  "regions_loop table_regions [] = Inr table_regions"
| "regions_loop table_regions (c # contours) =
     (if ct_area c > 1000 then
        (case ct_rect c of (x, y, w, h) \<Rightarrow>
           if h = 0 then Inl ZeroDivisionError
           else
             let aspect_ratio = (of_int w / of_int h :: rat) in
             if aspect_ratio > 1 / 2 \<and> aspect_ratio < 5
             then regions_loop (table_regions @ [(x, y, w, h)]) contours
             else regions_loop table_regions contours)
      else regions_loop table_regions contours)"

definition detect_table_regions :: "contour list \<Rightarrow> py_error + (int \<times> int \<times> int \<times> int) list" where
  "detect_table_regions contours = regions_loop [] contours"

text \<open>The height and the aspect ratio \<^verbatim>\<open>w / h\<close> of a contour's bounding rectangle.\<close>

definition rect_h :: "contour \<Rightarrow> int" where
  "rect_h c = (case ct_rect c of (x, y, w, h) \<Rightarrow> h)"

definition aspect :: "contour \<Rightarrow> rat" where
  "aspect c = (case ct_rect c of (x, y, w, h) \<Rightarrow> of_int w / of_int h)"

subsection \<open>Concrete inputs\<close>

text \<open>
  Three word boxes on three lines: one starting at x = 10 and two at x = 128, the last one
  ending at x = 410.
\<close>

definition grid_example_boxes :: "text_box list" where
  "grid_example_boxes =
     [\<lparr>bx_text = ''Glucose'', bx_confidence = 96, bx_x = 10, bx_y = 0, bx_width = 60, bx_height = 12\<rparr>,
      \<lparr>bx_text = ''mmol'', bx_confidence = 91, bx_x = 128, bx_y = 30, bx_width = 40, bx_height = 12\<rparr>,
      \<lparr>bx_text = ''250'', bx_confidence = 93, bx_x = 128, bx_y = 60, bx_width = 282, bx_height = 12\<rparr>]"

text \<open>
  Scenario 4 of the specification: four lines with left-x 10, 12, 200 and 205, whose
  largest right-x is 205, so that the histogram spans [10, 205]; once with lines of width 0
  and once with wider lines.
\<close>

definition column_scenario :: "structured_line list" where
  "column_scenario =
     [\<lparr>ln_text = ''Test'', ln_x = 10, ln_y = 0, ln_width = 0, ln_height = 12\<rparr>,
      \<lparr>ln_text = ''Hb'', ln_x = 12, ln_y = 20, ln_width = 0, ln_height = 12\<rparr>,
      \<lparr>ln_text = ''Result'', ln_x = 200, ln_y = 40, ln_width = 0, ln_height = 12\<rparr>,
      \<lparr>ln_text = ''14.2'', ln_x = 205, ln_y = 60, ln_width = 0, ln_height = 12\<rparr>]"

definition column_scenario_wide :: "structured_line list" where
  "column_scenario_wide =
     [\<lparr>ln_text = ''Test'', ln_x = 10, ln_y = 0, ln_width = 40, ln_height = 12\<rparr>,
      \<lparr>ln_text = ''Hb'', ln_x = 12, ln_y = 20, ln_width = 193, ln_height = 12\<rparr>,
      \<lparr>ln_text = ''Result'', ln_x = 200, ln_y = 40, ln_width = 5, ln_height = 12\<rparr>,
      \<lparr>ln_text = ''14.2'', ln_x = 205, ln_y = 60, ln_width = 0, ln_height = 12\<rparr>]"

subsection \<open>More Python string primitives\<close>

text \<open>
  \<^verbatim>\<open>str.lower()\<close> on the code points below 256: the ASCII capitals and the capitals
  192 to 222 (without the multiplication sign 215) move up by 32.
\<close>

definition lower_char :: "char \<Rightarrow> char" where
  "lower_char c =
     (let n = (of_char c :: int) in
      if (65 \<le> n \<and> n \<le> 90) \<or> (192 \<le> n \<and> n \<le> 222 \<and> n \<noteq> 215) then char_of (n + 32) else c)"

definition lower :: "string \<Rightarrow> string" where
  "lower s = map lower_char s"

text \<open>\<^verbatim>\<open>s.split(d)\<close> for a separator \<open>d\<close> of one character: never an empty list.\<close>

fun split_on :: "char \<Rightarrow> string \<Rightarrow> string list" where
  "split_on d [] = [[]]"
| "split_on d (c # cs) =
     (if c = d then [] # split_on d cs
      else (case split_on d cs of p # ps \<Rightarrow> (c # p) # ps | [] \<Rightarrow> [[c]]))"

text \<open>\<^verbatim>\<open>s.count(d)\<close> for one character, and \<^verbatim>\<open>s.split()\<close> on runs of whitespace.\<close>

definition count_char :: "char \<Rightarrow> string \<Rightarrow> nat" where
  "count_char d s = length (filter (\<lambda>c. c = d) s)"

fun split_whitespace :: "string \<Rightarrow> string \<Rightarrow> string list" where
  "split_whitespace word [] = (if word = [] then [] else [word])"
| "split_whitespace word (c # cs) =
     (if py_isspace c then (if word = [] then split_whitespace [] cs
                            else word # split_whitespace [] cs)
      else split_whitespace (word @ [c]) cs)"

definition newline :: char where
  "newline = CHR 0x0A"

definition tab :: char where
  "tab = CHR 0x09"

definition is_digit :: "char \<Rightarrow> bool" where
  "is_digit c \<longleftrightarrow> (let n = (of_char c :: int) in 48 \<le> n \<and> n \<le> 57)"

definition is_ascii_letter :: "char \<Rightarrow> bool" where
  "is_ascii_letter c \<longleftrightarrow>
     (let n = (of_char c :: int) in (65 \<le> n \<and> n \<le> 90) \<or> (97 \<le> n \<and> n \<le> 122))"

subsection \<open>Python floats and \<^verbatim>\<open>float(str)\<close>\<close>

text \<open>
  A Python float is an infinity, not-a-number, or a finite value. A finite value is kept as
  the exact rational its decimal string denotes: rounding to binary64 (with overflow to an
  infinity beyond 1.8e308 and underflow to zero) is not modelled.
\<close>

datatype pyfloat = NegInf | Finite rat | PosInf | NaN

text \<open>Python's \<^verbatim>\<open><\<close> and \<^verbatim>\<open>!=\<close> on floats: every comparison with NaN but \<^verbatim>\<open>!=\<close> is false.\<close>

fun float_lt :: "pyfloat \<Rightarrow> pyfloat \<Rightarrow> bool" where
  "float_lt NaN b = False"
| "float_lt a NaN = False"
| "float_lt a NegInf = False"
| "float_lt NegInf b = True"
| "float_lt PosInf b = False"
| "float_lt (Finite p) PosInf = True"
| "float_lt (Finite p) (Finite q) = (p < q)"

definition float_gt :: "pyfloat \<Rightarrow> pyfloat \<Rightarrow> bool" where
  "float_gt a b = float_lt b a"

definition float_ne :: "pyfloat \<Rightarrow> pyfloat \<Rightarrow> bool" where
  "float_ne a b \<longleftrightarrow> a = NaN \<or> b = NaN \<or> a \<noteq> b"

fun float_neg :: "pyfloat \<Rightarrow> pyfloat" where
  "float_neg NegInf = PosInf"
| "float_neg PosInf = NegInf"
| "float_neg NaN = NaN"
| "float_neg (Finite q) = Finite (- q)"

text \<open>
  The grammar of \<^verbatim>\<open>float(s)\<close> (Python language reference):
  \<^verbatim>\<open>digitpart ::= digit (["_"] digit)*\<close>,
  \<^verbatim>\<open>number ::= [digitpart] "." digitpart | digitpart ["."]\<close>,
  \<^verbatim>\<open>exponent ::= ("e" | "E") [sign] digitpart\<close>,
  \<^verbatim>\<open>floatvalue ::= [sign] (number [exponent] | "inf" | "infinity" | "nan")\<close>,
  the words in any case, the whole between optional whitespace. \<open>None\<close> is \<^verbatim>\<open>ValueError\<close>.
\<close>

definition digit_val :: "char \<Rightarrow> int" where
  "digit_val c = of_char c - 48"

definition digits_val :: "string \<Rightarrow> int" where
  "digits_val ds = foldl (\<lambda>n c. 10 * n + digit_val c) 0 ds"

fun digitpart_tail :: "string \<Rightarrow> string \<times> string" where
  "digitpart_tail [] = ([], [])"
| "digitpart_tail [c] = (if is_digit c then ([c], []) else ([], [c]))"
| "digitpart_tail (c # d # cs) =
     (if is_digit c then (case digitpart_tail (d # cs) of (ds, r) \<Rightarrow> (c # ds, r))
      else if c = CHR ''_'' \<and> is_digit d then (case digitpart_tail cs of (ds, r) \<Rightarrow> (d # ds, r))
      else ([], c # d # cs))"

definition digitpart :: "string \<Rightarrow> (string \<times> string) option" where
  "digitpart s =
     (case s of
        [] \<Rightarrow> None
      | c # cs \<Rightarrow> if is_digit c then (case digitpart_tail cs of (ds, r) \<Rightarrow> Some (c # ds, r))
                  else None)"

definition fraction_val :: "string \<Rightarrow> rat" where
  "fraction_val ds = of_int (digits_val ds) / 10 ^ length ds"

definition number :: "string \<Rightarrow> (rat \<times> string) option" where
  "number s =
     (case digitpart s of
        Some (ip, r) \<Rightarrow>
          (case r of
             [] \<Rightarrow> Some (of_int (digits_val ip), [])
           | c # r' \<Rightarrow>
               if c = CHR ''.'' then
                 (case digitpart r' of
                    Some (fp, r'') \<Rightarrow> Some (of_int (digits_val ip) + fraction_val fp, r'')
                  | None \<Rightarrow> Some (of_int (digits_val ip), r'))
               else Some (of_int (digits_val ip), r))
      | None \<Rightarrow>
          (case s of
             [] \<Rightarrow> None
           | c # r' \<Rightarrow>
               if c = CHR ''.'' then
                 (case digitpart r' of
                    Some (fp, r'') \<Rightarrow> Some (fraction_val fp, r'')
                  | None \<Rightarrow> None)
               else None))"

definition exponent :: "string \<Rightarrow> (int \<times> string) option" where
  "exponent s =
     (case s of
        [] \<Rightarrow> None
      | c # r \<Rightarrow>
          if c = CHR ''e'' \<or> c = CHR ''E'' then
            (case r of
               [] \<Rightarrow> None
             | g # r' \<Rightarrow>
                 if g = CHR ''+'' then map_option (\<lambda>(ds, t). (digits_val ds, t)) (digitpart r')
                 else if g = CHR ''-'' then
                   map_option (\<lambda>(ds, t). (- digits_val ds, t)) (digitpart r')
                 else map_option (\<lambda>(ds, t). (digits_val ds, t)) (digitpart r))
          else None)"

definition scale10 :: "rat \<Rightarrow> int \<Rightarrow> rat" where
  "scale10 m e = (if 0 \<le> e then m * 10 ^ nat e else m / 10 ^ nat (- e))"

definition ascii_lower :: "string \<Rightarrow> string" where
  "ascii_lower s = map (\<lambda>c. if 65 \<le> (of_char c :: int) \<and> (of_char c :: int) \<le> 90 then lower_char c else c) s"

definition absfloatvalue :: "string \<Rightarrow> pyfloat option" where
  "absfloatvalue s =
     (if ascii_lower s = ''inf'' \<or> ascii_lower s = ''infinity'' then Some PosInf
      else if ascii_lower s = ''nan'' then Some NaN
      else
        (case number s of
           None \<Rightarrow> None
         | Some (m, r) \<Rightarrow>
             if r = [] then Some (Finite m)
             else (case exponent r of
                     Some (e, r') \<Rightarrow> if r' = [] then Some (Finite (scale10 m e)) else None
                   | None \<Rightarrow> None)))"

definition py_float :: "string \<Rightarrow> pyfloat option" where
  "py_float s =
     (case strip s of
        [] \<Rightarrow> None
      | c # r \<Rightarrow>
          if c = CHR ''-'' then map_option float_neg (absfloatvalue r)
          else if c = CHR ''+'' then absfloatvalue r
          else absfloatvalue (c # r))"

subsection \<open>Regular expressions (Python's \<^verbatim>\<open>re\<close>)\<close>

text \<open>
  The fragment of \<^verbatim>\<open>re\<close> the program's patterns use: a character class, concatenation,
  alternation (the left alternative first), the greedy star, a numbered capturing group, a
  positive lookahead, and \<^verbatim>\<open>$\<close> (the end of the string, or just before a newline that ends
  it). \<^verbatim>\<open>r+\<close> is \<open>r r*\<close>, \<^verbatim>\<open>r?\<close> is \<open>r | empty\<close>, \<^verbatim>\<open>r{2,}\<close> is \<open>r r r*\<close>.
  \<^verbatim>\<open>\s\<close> is \<^const>\<open>py_isspace\<close>; \<^verbatim>\<open>\d\<close> is \<^const>\<open>is_digit\<close> on the code points below 256.
\<close>

datatype rx =
  Cls "char \<Rightarrow> bool"
  | Seq rx rx
  | Alt rx rx
  | Star rx
  | Group nat rx
  | Look rx
  | Eps
  | EndAnchor

text \<open>
  The matcher is the backtracking matcher of \<^verbatim>\<open>re\<close> in continuation-passing style: the
  continuation is what remains to be matched, and the first success in the order of
  backtracking is the result. The state is the rest of the subject and the groups captured
  so far (the latest capture of a group first). An iteration of a star that consumes nothing
  is not taken; the fuel of \<open>star_loop\<close>, the length of the subject left, is never used up.
\<close>

type_synonym captures = "(nat \<times> string) list"
type_synonym cont = "string \<Rightarrow> captures \<Rightarrow> (string \<times> captures) option"

fun star_loop :: "nat \<Rightarrow> (cont \<Rightarrow> cont) \<Rightarrow> cont \<Rightarrow> cont" where
  "star_loop 0 body k s c = k s c"
| "star_loop (Suc n) body k s c =
     (case body (\<lambda>s' c'. if length s' < length s then star_loop n body k s' c' else None) s c of
        Some r \<Rightarrow> Some r
      | None \<Rightarrow> k s c)"

primrec rmatch :: "rx \<Rightarrow> cont \<Rightarrow> cont" where
  "rmatch (Cls p) k = (\<lambda>s c. case s of [] \<Rightarrow> None | x # xs \<Rightarrow> if p x then k xs c else None)"
| "rmatch (Seq a b) k = rmatch a (rmatch b k)"
| "rmatch (Alt a b) k =
     (\<lambda>s c. case rmatch a k s c of Some r \<Rightarrow> Some r | None \<Rightarrow> rmatch b k s c)"
| "rmatch (Star a) k = (\<lambda>s c. star_loop (length s) (rmatch a) k s c)"
| "rmatch (Group i a) k =
     (\<lambda>s c. rmatch a (\<lambda>s' c'. k s' ((i, take (length s - length s') s) # c')) s c)"
| "rmatch (Look a) k =
     (\<lambda>s c. case rmatch a (\<lambda>s' c'. Some (s', c')) s c of
               Some (s', c') \<Rightarrow> k s c'
             | None \<Rightarrow> None)"
| "rmatch Eps k = k"
| "rmatch EndAnchor k = (\<lambda>s c. if s = [] \<or> s = [newline] then k s c else None)"

text \<open>A match that starts at the head of \<open>s\<close>: what is left of \<open>s\<close>, and the groups.\<close>

definition match_here :: "rx \<Rightarrow> string \<Rightarrow> (string \<times> captures) option" where
  "match_here r s = rmatch r (\<lambda>s' c'. Some (s', c')) s []"

text \<open>
  \<^verbatim>\<open>re.search\<close>: the match at the leftmost position that has one, as (start, end, groups);
  \<open>i\<close> is the position of \<open>s\<close> in the subject.
\<close>

fun search_at :: "rx \<Rightarrow> nat \<Rightarrow> string \<Rightarrow> (nat \<times> nat \<times> captures) option" where
  "search_at r i s =
     (case match_here r s of
        Some (rest, c) \<Rightarrow> Some (i, i + (length s - length rest), c)
      | None \<Rightarrow> (case s of [] \<Rightarrow> None | x # xs \<Rightarrow> search_at r (Suc i) xs))"

definition re_search :: "rx \<Rightarrow> string \<Rightarrow> (nat \<times> nat \<times> captures) option" where
  "re_search r s = search_at r 0 s"

text \<open>\<^verbatim>\<open>match.group(i)\<close>: \<open>None\<close> when the group took no part in the match.\<close>

definition group :: "captures \<Rightarrow> nat \<Rightarrow> string option" where
  "group c i = map_of c i"

text \<open>
  \<^verbatim>\<open>re.finditer\<close>: the matches from left to right, none overlapping; each search goes on
  where the last match ended. None of the program's patterns matches the empty string; after
  an empty match the model moves on by one character. \<^verbatim>\<open>re.sub(pattern, "", s)\<close> removes the
  same matches. The patterns look at nothing before the position they start at, so searching
  the rest of the subject is searching the subject from that position.
\<close>

fun finditer_loop :: "nat \<Rightarrow> rx \<Rightarrow> string \<Rightarrow> captures list" where
  "finditer_loop 0 r s = []"
| "finditer_loop (Suc n) r s =
     (case re_search r s of
        None \<Rightarrow> []
      | Some (a, b, c) \<Rightarrow> c # finditer_loop n r (drop (max b (Suc a)) s))"

definition re_finditer :: "rx \<Rightarrow> string \<Rightarrow> captures list" where
  "re_finditer r s = finditer_loop (Suc (length s)) r s"

fun sub_loop :: "nat \<Rightarrow> rx \<Rightarrow> string \<Rightarrow> string" where
  "sub_loop 0 r s = s"
| "sub_loop (Suc n) r s =
     (case re_search r s of
        None \<Rightarrow> s
      | Some (a, b, c) \<Rightarrow>
          if a < b then take a s @ sub_loop n r (drop b s)
          else take (Suc a) s @ sub_loop n r (drop (Suc a) s))"

definition re_sub_empty :: "rx \<Rightarrow> string \<Rightarrow> string" where
  "re_sub_empty r s = sub_loop (Suc (length s)) r s"

text \<open>Writing patterns.\<close>

fun rx_seq :: "rx list \<Rightarrow> rx" where
  "rx_seq [] = Eps"
| "rx_seq [r] = r"
| "rx_seq (r # rs) = Seq r (rx_seq rs)"

fun rx_alts :: "rx list \<Rightarrow> rx" where
  "rx_alts [] = Eps"
| "rx_alts [r] = r"
| "rx_alts (r # rs) = Alt r (rx_alts rs)"

definition rx_chr :: "char \<Rightarrow> rx" where
  "rx_chr d = Cls (\<lambda>c. c = d)"

definition rx_lit :: "string \<Rightarrow> rx" where
  "rx_lit s = rx_seq (map rx_chr s)"

definition rx_plus :: "rx \<Rightarrow> rx" where
  "rx_plus r = Seq r (Star r)"

definition rx_opt :: "rx \<Rightarrow> rx" where
  "rx_opt r = Alt r Eps"

definition rx_space :: rx where
  "rx_space = Cls py_isspace"

definition rx_digit :: rx where
  "rx_digit = Cls is_digit"

text \<open>\<^verbatim>\<open>\d+\.?\d*\<close>\<close>

definition rx_decimal :: rx where
  "rx_decimal = rx_seq [rx_plus rx_digit, rx_opt (rx_chr CHR ''.''), Star rx_digit]"

subsection \<open>\<^verbatim>\<open>app/utils.py\<close>\<close>

text \<open>\<^verbatim>\<open><\s*=?\s*(\d+\.?\d*)\<close> and \<^verbatim>\<open>>\s*=?\s*(\d+\.?\d*)\<close>\<close>

definition bound_pattern :: "char \<Rightarrow> rx" where
  "bound_pattern sign =
     rx_seq [rx_chr sign, Star rx_space, rx_opt (rx_chr CHR ''=''), Star rx_space, Group 1 rx_decimal]"

text \<open>
  \<^verbatim>\<open>parse_reference_range\<close>. Each of the three cases either returns or falls through to the
  next; a \<^verbatim>\<open>ValueError\<close> of \<^verbatim>\<open>float\<close> is caught and falls through as well.
\<close>

definition range_case :: "string \<Rightarrow> (pyfloat \<times> pyfloat) option" where
  "range_case range_str =
     (if CHR ''-'' \<in> set range_str \<and> \<not> (CHR ''<'' \<in> set range_str \<or> CHR ''>'' \<in> set range_str) then
        (case split_on CHR ''-'' range_str of
           [p0, p1] \<Rightarrow>
             (case py_float (strip p0) of
                None \<Rightarrow> None
              | Some min_val \<Rightarrow>
                  (case py_float (strip p1) of
                     None \<Rightarrow> None
                   | Some max_val \<Rightarrow> Some (min_val, max_val)))
         | _ \<Rightarrow> None)
      else None)"

definition less_than_case :: "string \<Rightarrow> (pyfloat \<times> pyfloat) option" where
  "less_than_case range_str =
     (if CHR ''<'' \<in> set range_str then
        (case re_search (bound_pattern CHR ''<'') range_str of
           None \<Rightarrow> None
         | Some (a, b, c) \<Rightarrow>
             (case group c 1 of
                None \<Rightarrow> None
              | Some g \<Rightarrow> map_option (\<lambda>max_val. (NegInf, max_val)) (py_float g)))
      else None)"

definition greater_than_case :: "string \<Rightarrow> (pyfloat \<times> pyfloat) option" where
  "greater_than_case range_str =
     (if CHR ''>'' \<in> set range_str then
        (case re_search (bound_pattern CHR ''>'') range_str of
           None \<Rightarrow> None
         | Some (a, b, c) \<Rightarrow>
             (case group c 1 of
                None \<Rightarrow> None
              | Some g \<Rightarrow> map_option (\<lambda>min_val. (min_val, PosInf)) (py_float g)))
      else None)"

definition parse_reference_range :: "string \<Rightarrow> pyfloat \<times> pyfloat" where
  "parse_reference_range range_str0 =
     (let range_str = strip range_str0 in
      case range_case range_str of
        Some r \<Rightarrow> r
      | None \<Rightarrow>
          (case less_than_case range_str of
             Some r \<Rightarrow> r
           | None \<Rightarrow>
               (case greater_than_case range_str of
                  Some r \<Rightarrow> r
                | None \<Rightarrow> (Finite 0, Finite 0))))"

definition is_value_out_of_range :: "pyfloat \<Rightarrow> string \<Rightarrow> bool" where
  "is_value_out_of_range v reference_range =
     (case parse_reference_range reference_range of
        (min_val, max_val) \<Rightarrow>
          if float_ne min_val NegInf \<and> float_lt v min_val then True
          else if float_ne max_val PosInf \<and> float_gt v max_val then True
          else False)"

text \<open>
  \<^verbatim>\<open>clean_test_name\<close>, with the patterns \<^verbatim>\<open>\s*\([^)]*\)\s*$\<close> and \<^verbatim>\<open>\s*-\s*Result\s*$\<close>.
\<close>

definition patterns_to_remove :: "rx list" where
  "patterns_to_remove =
     [rx_seq [Star rx_space, rx_chr CHR ''('', Star (Cls (\<lambda>c. c \<noteq> CHR '')'')), rx_chr CHR '')'',
              Star rx_space, EndAnchor],
      rx_seq [Star rx_space, rx_chr CHR ''-'', Star rx_space, rx_lit ''Result'', Star rx_space,
              EndAnchor]]"

definition clean_test_name :: "string \<Rightarrow> string" where
  "clean_test_name name0 =
     strip (fold re_sub_empty patterns_to_remove (join_with '' '' (split_whitespace [] name0)))"

text \<open>
  The dictionary \<^verbatim>\<open>format_lab_test\<close> returns. \<^verbatim>\<open>test_value\<close> is the float, or the string that
  \<^verbatim>\<open>float\<close> refused.
\<close>

datatype py_value = PyFloat pyfloat | PyStr string

record lab_test =
  test_name :: string
  test_value :: py_value
  bio_reference_range :: string
  test_unit :: string
  lab_test_out_of_range :: bool

text \<open>\<^verbatim>\<open>[a-zA-Z/%]+\<close>\<close>

definition unit_pattern :: rx where
  "unit_pattern = rx_plus (Cls (\<lambda>c. is_ascii_letter c \<or> c = CHR ''/'' \<or> c = CHR ''%''))"

definition format_lab_test :: "string \<Rightarrow> string \<Rightarrow> string \<Rightarrow> lab_test" where
  "format_lab_test name_str value_str reference_range =
     \<lparr>test_name = clean_test_name name_str,
      test_value = (case py_float value_str of Some v \<Rightarrow> PyFloat v | None \<Rightarrow> PyStr value_str),
      bio_reference_range = reference_range,
      test_unit = (case re_search unit_pattern reference_range of
                     Some (a, b, c) \<Rightarrow> take (b - a) (drop a reference_range)
                   | None \<Rightarrow> []),
      lab_test_out_of_range = (case py_float value_str of
                                 Some v \<Rightarrow> is_value_out_of_range v reference_range
                               | None \<Rightarrow> False)\<rparr>"

subsection \<open>\<^verbatim>\<open>LabTestParser\<close>: the pattern tables\<close>

definition bind_err :: "py_error + 'a \<Rightarrow> ('a \<Rightarrow> py_error + 'b) \<Rightarrow> py_error + 'b" where
  "bind_err m f = (case m of Inl e \<Rightarrow> Inl e | Inr v \<Rightarrow> f v)"

text \<open>
  \<^verbatim>\<open>match.group(i).strip()\<close>: \<^verbatim>\<open>AttributeError\<close> if the group is \<^verbatim>\<open>None\<close>.
\<close>

definition group_strip :: "captures \<Rightarrow> nat \<Rightarrow> py_error + string" where
  "group_strip c i = (case group c i of None \<Rightarrow> Inl AttributeError | Some g \<Rightarrow> Inr (strip g))"

text \<open>The classes \<^verbatim>\<open>[A-Za-z0-9\s\-\+\/]\<close>, \<^verbatim>\<open>[0-9\.]\<close> and \<^verbatim>\<open>[0-9\.<>\-\s\.]\<close>.\<close>

definition name_chars :: "char \<Rightarrow> bool" where
  "name_chars c \<longleftrightarrow>
     is_ascii_letter c \<or> is_digit c \<or> py_isspace c \<or> c = CHR ''-'' \<or> c = CHR ''+'' \<or> c = CHR ''/''"

definition value_chars :: "char \<Rightarrow> bool" where
  "value_chars c \<longleftrightarrow> is_digit c \<or> c = CHR ''.''"

definition range_chars :: "char \<Rightarrow> bool" where
  "range_chars c \<longleftrightarrow>
     is_digit c \<or> c = CHR ''.'' \<or> c = CHR ''<'' \<or> c = CHR ''>'' \<or> c = CHR ''-'' \<or> py_isspace c"

text \<open>\<^verbatim>\<open>\.{2,}\<close>\<close>

definition rx_dots :: rx where
  "rx_dots = rx_seq [rx_chr CHR ''.'', rx_chr CHR ''.'', Star (rx_chr CHR ''.'')]"

text \<open>
  \<^verbatim>\<open>self.patterns\<close>, in the order of the source:
  \<^verbatim>\<open>([A-Za-z0-9\s\-\+\/]+)\s*:\s*([0-9\.]+)\s*(?:\(([0-9\.<>\-\s\.]+)\))?\<close>,
  \<^verbatim>\<open>([A-Za-z0-9\s\-\+\/]+)\s+([0-9\.]+)\s+([0-9\.<>\-\s\.]+)\<close>,
  \<^verbatim>\<open>([A-Za-z0-9\s\-\+\/]+)\.{2,}\s*([0-9\.]+)\.{2,}\s*([0-9\.<>\-\s\.]+)\<close>,
  \<^verbatim>\<open>([A-Za-z0-9\s\-\+\/]+)\s+Result\s*:\s*([0-9\.]+)\s+([0-9\.<>\-\s\.]+)\<close>.
\<close>

definition patterns :: "rx list" where
  "patterns =
     [rx_seq [Group 1 (rx_plus (Cls name_chars)), Star rx_space, rx_chr CHR '':'', Star rx_space,
              Group 2 (rx_plus (Cls value_chars)), Star rx_space,
              rx_opt (rx_seq [rx_chr CHR ''('', Group 3 (rx_plus (Cls range_chars)), rx_chr CHR '')''])],
      rx_seq [Group 1 (rx_plus (Cls name_chars)), rx_plus rx_space,
              Group 2 (rx_plus (Cls value_chars)), rx_plus rx_space,
              Group 3 (rx_plus (Cls range_chars))],
      rx_seq [Group 1 (rx_plus (Cls name_chars)), rx_dots, Star rx_space,
              Group 2 (rx_plus (Cls value_chars)), rx_dots, Star rx_space,
              Group 3 (rx_plus (Cls range_chars))],
      rx_seq [Group 1 (rx_plus (Cls name_chars)), rx_plus rx_space, rx_lit ''Result'', Star rx_space,
              rx_chr CHR '':'', Star rx_space, Group 2 (rx_plus (Cls value_chars)), rx_plus rx_space,
              Group 3 (rx_plus (Cls range_chars))]]"

definition table_header_patterns :: "rx list" where
  "table_header_patterns =
     [rx_seq [rx_lit ''test'', Star rx_space, rx_lit ''name''],
      rx_lit ''parameter'',
      rx_lit ''investigation'',
      rx_seq [rx_lit ''lab'', Star rx_space, rx_lit ''test'']]"

definition value_header_patterns :: "rx list" where
  "value_header_patterns = [rx_lit ''result'', rx_lit ''value'', rx_lit ''reading'']"

definition range_header_patterns :: "rx list" where
  "range_header_patterns =
     [rx_seq [rx_lit ''reference'', Star rx_space, rx_lit ''range''],
      rx_seq [rx_lit ''normal'', Star rx_space, rx_lit ''range''],
      rx_seq [rx_lit ''bio'', Star rx_space, rx_lit ''reference''],
      rx_seq [rx_lit ''expected'', Star rx_space, rx_lit ''range'']]"

text \<open>\<^verbatim>\<open>any(re.search(pattern, s) for pattern in pats)\<close>\<close>

definition any_search :: "rx list \<Rightarrow> string \<Rightarrow> bool" where
  "any_search pats s = list_ex (\<lambda>p. re_search p s \<noteq> None) pats"

subsection \<open>\<^verbatim>\<open>LabTestParser._is_tabular_format\<close>\<close>

definition has_headers :: "string \<Rightarrow> bool" where
  "has_headers line =
     (let line_lower = lower line in
      any_search table_header_patterns line_lower \<and> any_search value_header_patterns line_lower)"

definition delimiter_counts :: "string list \<Rightarrow> nat list" where
  "delimiter_counts lines =
     map (\<lambda>d. sum_list (map (count_char d) lines)) [CHR ''|'', tab, CHR '','']"

definition is_tabular_format :: "string \<Rightarrow> bool" where
  "is_tabular_format text_in =
     (let lines = split_on newline text_in in
      if list_ex has_headers lines then True
      else if list_ex (\<lambda>n. (of_nat n :: rat) > of_nat (length lines) * (3 / 2))
                (delimiter_counts lines) then True
      else False)"

subsection \<open>\<^verbatim>\<open>LabTestParser._parse_tabular_format\<close>\<close>

text \<open>
  The dictionary \<^verbatim>\<open>header_columns\<close> with its three possible keys, and a result that is either
  the value of a \<^verbatim>\<open>return\<close> inside the loops or the state the loops go on with.
\<close>

record header_columns =
  hc_test_name :: "nat option"
  hc_value :: "nat option"
  hc_range :: "nat option"

datatype ('r, 's) flow = Return 'r | Continue 's

text \<open>The loop \<^verbatim>\<open>for j, col in enumerate(columns)\<close>.\<close>

fun map_header_columns :: "header_columns \<Rightarrow> nat \<Rightarrow> string list \<Rightarrow> header_columns" where
  "map_header_columns hc j [] = hc"
| "map_header_columns hc j (col # cols) =
     map_header_columns
       (if any_search table_header_patterns col then hc\<lparr>hc_test_name := Some j\<rparr>
        else if any_search value_header_patterns col then hc\<lparr>hc_value := Some j\<rparr>
        else if any_search range_header_patterns col then hc\<lparr>hc_range := Some j\<rparr>
        else hc)
       (Suc j) cols"

text \<open>
  The body of the loop over the data rows, for the columns \<open>n\<close> of the test name and \<open>v\<close> of
  the value (both keys are in \<^verbatim>\<open>header_columns\<close> when the loop runs) and the optional column
  \<open>r\<close> of the range. \<^verbatim>\<open>max(header_columns.values())\<close> is the largest of these.
\<close>

definition data_row ::
  "nat \<Rightarrow> nat \<Rightarrow> nat option \<Rightarrow> char \<Rightarrow> lab_test list \<Rightarrow> string \<Rightarrow> lab_test list"
where
  "data_row n v r delimiter lab_tests raw_line =
     (let data_line = strip raw_line in
      if data_line = [] then lab_tests
      else
        let data_cols = map strip (split_on delimiter data_line) in
        if length data_cols \<le> fold max (v # (case r of Some j \<Rightarrow> [j] | None \<Rightarrow> [])) n then lab_tests
        else
          let name_str = data_cols ! n;
              value_str = data_cols ! v;
              reference_range =
                (case r of
                   Some j \<Rightarrow> if j < length data_cols then data_cols ! j else ''N/A''
                 | None \<Rightarrow> ''N/A'')
          in if name_str \<noteq> [] \<and> value_str \<noteq> []
             then lab_tests @ [format_lab_test name_str value_str reference_range]
             else lab_tests)"

text \<open>The loop \<^verbatim>\<open>for delimiter in potential_delimiters\<close>, for the header line \<open>i\<close>.\<close>

fun delimiter_loop ::
  "string list \<Rightarrow> nat \<Rightarrow> string \<Rightarrow> header_columns \<Rightarrow> lab_test list \<Rightarrow> char list
     \<Rightarrow> (lab_test list, header_columns \<times> lab_test list) flow"
where
  "delimiter_loop lines i line hc lab_tests [] = Continue (hc, lab_tests)"
| "delimiter_loop lines i line hc lab_tests (delimiter # delimiters) =
     (if delimiter \<in> set line then
        let columns = map (\<lambda>col. lower (strip col)) (split_on delimiter line);
            hc' = map_header_columns hc 0 columns
        in (case (hc_test_name hc', hc_value hc') of
              (Some n, Some v) \<Rightarrow>
                let lab_tests' =
                      fold (\<lambda>raw_line acc. data_row n v (hc_range hc') delimiter acc raw_line)
                        (drop (Suc i) lines) lab_tests
                in if lab_tests' \<noteq> [] then Return lab_tests'
                   else delimiter_loop lines i line hc' lab_tests' delimiters
            | _ \<Rightarrow> delimiter_loop lines i line hc' lab_tests delimiters)
      else delimiter_loop lines i line hc lab_tests delimiters)"

text \<open>
  The loop \<^verbatim>\<open>for i, line in enumerate(lines)\<close>. Its state: whether a header line was seen
  (\<^verbatim>\<open>header_line_idx\<close> is not \<open>-1\<close>), \<^verbatim>\<open>header_columns\<close> and \<^verbatim>\<open>lab_tests\<close>.
\<close>

fun header_loop ::
  "string list \<Rightarrow> nat \<Rightarrow> string list \<Rightarrow> nat option \<times> header_columns \<times> lab_test list
     \<Rightarrow> (lab_test list, nat option \<times> header_columns \<times> lab_test list) flow"
where
  "header_loop lines i [] st = Continue st"
| "header_loop lines i (line # rest) (header_line_idx, hc, lab_tests) =
     (if has_headers line then
        let potential_delimiters =
              [CHR ''|'', tab] @
              (if CHR '','' \<in> set line \<and> \<not> count_char CHR '','' line > 5 then [CHR '',''] else [])
        in (case delimiter_loop lines i line hc lab_tests potential_delimiters of
              Return found \<Rightarrow> Return found
            | Continue (hc', lab_tests') \<Rightarrow> header_loop lines (Suc i) rest (Some i, hc', lab_tests'))
      else header_loop lines (Suc i) rest (header_line_idx, hc, lab_tests))"

text \<open>The body of the positional loop, with the columns 0, 1 and 2 of a tab-separated line.\<close>

definition positional_row :: "lab_test list \<Rightarrow> string \<Rightarrow> lab_test list" where
  "positional_row lab_tests raw_line =
     (let line = strip raw_line in
      if line = [] then lab_tests
      else
        (case split_on tab line of
           c0 # c1 # others \<Rightarrow>
             if any_search table_header_patterns (lower c0) then lab_tests
             else
               let name_str = strip c0;
                   value_str = strip c1;
                   reference_range = (case others of c2 # _ \<Rightarrow> strip c2 | [] \<Rightarrow> ''N/A'')
               in if name_str \<noteq> [] \<and> value_str \<noteq> []
                  then lab_tests @ [format_lab_test name_str value_str reference_range]
                  else lab_tests
         | _ \<Rightarrow> lab_tests))"

definition parse_tabular_format :: "string \<Rightarrow> lab_test list" where
  "parse_tabular_format text_in =
     (let lines = split_on newline text_in in
      case header_loop lines 0 lines
             (None, \<lparr>hc_test_name = None, hc_value = None, hc_range = None\<rparr>, []) of
        Return found \<Rightarrow> found
      | Continue (header_line_idx, hc, lab_tests) \<Rightarrow>
          if header_line_idx = None
          then fold (\<lambda>raw_line acc. positional_row acc raw_line) lines lab_tests
          else lab_tests)"

subsection \<open>\<^verbatim>\<open>LabTestParser._parse_aggressive\<close>\<close>

text \<open>
  \<^verbatim>\<open>test_name_patterns\<close>: two lists of analyte names, then
  \<^verbatim>\<open>([A-Za-z][A-Za-z\s\-]+)(?=\s*[:=])\<close>; \<^verbatim>\<open>value_pattern\<close> is \<^verbatim>\<open>(\d+\.?\d*)\<close> and
  \<^verbatim>\<open>range_pattern\<close> is \<^verbatim>\<open>(\d+\.?\d*\s*[-\<endash>]\s*\d+\.?\d*)\<close>, whose en dash (code point 8211)
  is not a character of the model's strings.
\<close>

definition test_name_patterns :: "rx list" where
  "test_name_patterns =
     [Group 1 (rx_alts (map rx_lit
        [''Hemoglobin'', ''WBC'', ''RBC'', ''Platelets'', ''Glucose'', ''Cholesterol'', ''HDL'', ''LDL'',
         ''Triglycerides'', ''Sodium'', ''Potassium'', ''Chloride'', ''Calcium'', ''Magnesium'',
         ''Creatinine'', ''BUN'', ''ALT'', ''AST'', ''Bilirubin'', ''Albumin'', ''ALP'', ''HbA1c''])),
      Group 1 (rx_alts (map rx_lit
        [''TSH'', ''T3'', ''T4'', ''Vitamin D'', ''B12'', ''Folate'', ''Iron'', ''Ferritin''])),
      Seq (Group 1 (Seq (Cls is_ascii_letter)
                        (rx_plus (Cls (\<lambda>c. is_ascii_letter c \<or> py_isspace c \<or> c = CHR ''-'')))))
          (Look (Seq (Star rx_space) (Cls (\<lambda>c. c = CHR '':'' \<or> c = CHR ''=''))))]"

definition value_pattern :: rx where
  "value_pattern = Group 1 rx_decimal"

definition range_pattern :: rx where
  "range_pattern =
     Group 1 (rx_seq [rx_decimal, Star rx_space, rx_chr CHR ''-'', Star rx_space, rx_decimal])"

text \<open>
  The loop \<^verbatim>\<open>for pattern in test_name_patterns\<close>: the match of the first pattern that has
  one.
\<close>

fun first_search :: "rx list \<Rightarrow> string \<Rightarrow> (nat \<times> nat \<times> captures) option" where
  "first_search [] s = None"
| "first_search (p # ps) s =
     (case re_search p s of Some m \<Rightarrow> Some m | None \<Rightarrow> first_search ps s)"

text \<open>
  \<^verbatim>\<open>lines[i + 1]\<close> where the code reads it: when \<^verbatim>\<open>i + 1 < len(lines)\<close> and the line is not
  blank.
\<close>

definition next_line :: "string list \<Rightarrow> nat \<Rightarrow> string option" where
  "next_line lines i =
     (if i + 1 < length lines \<and> strip (lines ! (i + 1)) \<noteq> [] then Some (lines ! (i + 1)) else None)"

text \<open>
  A search on this line (or what is left of it), else on the next line: the stripped group 1
  of the match, \<open>None\<close> without a match.
\<close>

definition search_here_or_next ::
  "rx \<Rightarrow> string \<Rightarrow> string option \<Rightarrow> py_error + string option"
where
  "search_here_or_next p here nxt =
     (case re_search p here of
        Some (a, b, c) \<Rightarrow> bind_err (group_strip c 1) (\<lambda>g. Inr (Some g))
      | None \<Rightarrow>
          (case nxt of
             None \<Rightarrow> Inr None
           | Some following \<Rightarrow>
               (case re_search p following of
                  Some (a, b, c) \<Rightarrow> bind_err (group_strip c 1) (\<lambda>g. Inr (Some g))
                | None \<Rightarrow> Inr None)))"

text \<open>
  The body of the loop over the lines: the records after line \<open>i\<close>. \<^verbatim>\<open>continue\<close> leaves
  \<open>lab_tests\<close> as it is.
\<close>

definition aggressive_line ::
  "string list \<Rightarrow> lab_test list \<Rightarrow> nat \<times> string \<Rightarrow> py_error + lab_test list"
where
  "aggressive_line lines lab_tests numbered =
     (case numbered of (i, line) \<Rightarrow>
        if strip line = [] then Inr lab_tests
        else
          (case first_search test_name_patterns line of
             None \<Rightarrow> Inr lab_tests
           | Some (a, b, c) \<Rightarrow>
               bind_err (group_strip c 1) (\<lambda>name_str.
                 if name_str = [] then Inr lab_tests
                 else
                   bind_err (search_here_or_next value_pattern (drop b line) (next_line lines i))
                     (\<lambda>value_found.
                        case value_found of
                          None \<Rightarrow> Inr lab_tests
                        | Some value_str \<Rightarrow>
                            if value_str = [] then Inr lab_tests
                            else
                              bind_err (search_here_or_next range_pattern line (next_line lines i))
                                (\<lambda>range_found.
                                   Inr (lab_tests @
                                     [format_lab_test name_str value_str
                                        (case range_found of Some g \<Rightarrow> g | None \<Rightarrow> ''N/A'')]))))))"

text \<open>A loop with an accumulator that the first exception leaves.\<close>

fun fold_err :: "('s \<Rightarrow> 'a \<Rightarrow> py_error + 's) \<Rightarrow> 's \<Rightarrow> 'a list \<Rightarrow> py_error + 's" where
  "fold_err f st [] = Inr st"
| "fold_err f st (item # items) =
     (case f st item of Inl e \<Rightarrow> Inl e | Inr st' \<Rightarrow> fold_err f st' items)"

definition parse_aggressive :: "string \<Rightarrow> py_error + lab_test list" where
  "parse_aggressive text_in =
     (let lines = split_on newline text_in in
      fold_err (aggressive_line lines) [] (enumerate 0 lines))"

subsection \<open>\<^verbatim>\<open>LabTestParser.parse_text\<close>\<close>

text \<open>
  The body of the loop over the matches of one pattern. Every pattern has three groups, so
  \<^verbatim>\<open>len(match.groups())\<close> is 3; group 3 counts when it is neither \<^verbatim>\<open>None\<close> nor empty.
\<close>

definition match_record :: "lab_test list \<Rightarrow> captures \<Rightarrow> py_error + lab_test list" where
  "match_record lab_tests c =
     bind_err (group_strip c 1) (\<lambda>name_str.
       bind_err (group_strip c 2) (\<lambda>value_str.
         let reference_range =
               (case group c 3 of
                  Some g \<Rightarrow> if g \<noteq> [] then strip g else ''N/A''
                | None \<Rightarrow> ''N/A'')
         in Inr (lab_tests @ [format_lab_test name_str value_str reference_range])))"

text \<open>The loop \<^verbatim>\<open>for pattern in self.patterns\<close> with the loop over the matches inside.\<close>

definition pattern_matches :: "string \<Rightarrow> lab_test list \<Rightarrow> rx \<Rightarrow> py_error + lab_test list" where
  "pattern_matches text_in lab_tests pattern =
     fold_err match_record lab_tests (re_finditer pattern text_in)"

definition regex_templates :: "string \<Rightarrow> py_error + lab_test list" where
  "regex_templates text_in = fold_err (pattern_matches text_in) [] patterns"

definition parse_text :: "string \<Rightarrow> py_error + lab_test list" where
  "parse_text text_in =
     (if is_tabular_format text_in then Inr (parse_tabular_format text_in)
      else
        (case regex_templates text_in of
           Inl e \<Rightarrow> Inl e
         | Inr lab_tests \<Rightarrow>
             if lab_tests \<noteq> [] then Inr lab_tests else parse_aggressive text_in))"

definition scenario_text :: string where
  "scenario_text = ''Hemoglobin: 14.2 (12.0-16.0)'' @ [newline] @ ''WBC: 11000 (4000-11000)''"

subsection \<open>\<^verbatim>\<open>LabTestParser.parse_table_data\<close>\<close>

text \<open>\<^verbatim>\<open>row[i]\<close>: a negative index counts from the end; \<^verbatim>\<open>IndexError\<close> out of range.\<close>

definition py_item :: "'a list \<Rightarrow> int \<Rightarrow> py_error + 'a" where
  "py_item row i =
     (let n = int (length row); j = (if i < 0 then n + i else i)
      in if 0 \<le> j \<and> j < n then Inr (row ! nat j) else Inl IndexError)"

text \<open>
  The loop over the cells of the first row, with the state
  \<open>(test_name_col, value_col, range_col)\<close>, each \<open>-1\<close> at first.
\<close>

fun header_cells :: "int \<times> int \<times> int \<Rightarrow> int \<Rightarrow> string list \<Rightarrow> int \<times> int \<times> int" where
  "header_cells cols j [] = cols"
| "header_cells (test_name_col, value_col, range_col) j (cell # cells) =
     (let cell_lower = lower cell in
      header_cells
        (if any_search table_header_patterns cell_lower then (j, value_col, range_col)
         else if any_search value_header_patterns cell_lower then (test_name_col, j, range_col)
         else if any_search range_header_patterns cell_lower then (test_name_col, value_col, j)
         else (test_name_col, value_col, range_col))
        (j + 1) cells)"

text \<open>The body of the loop over the data rows.\<close>

definition table_row ::
  "int \<Rightarrow> int \<Rightarrow> int \<Rightarrow> lab_test list \<Rightarrow> string list \<Rightarrow> py_error + lab_test list"
where
  "table_row test_name_col value_col range_col lab_tests row =
     bind_err (py_max (filter (\<lambda>col. col \<ge> 0) [test_name_col, value_col, range_col])) (\<lambda>widest.
       if int (length row) \<le> widest then Inr lab_tests
       else
         bind_err (py_item row test_name_col) (\<lambda>name_cell.
           bind_err (py_item row value_col) (\<lambda>value_cell.
             bind_err (if range_col \<ge> 0 \<and> range_col < int (length row)
                       then bind_err (py_item row range_col) (\<lambda>cell. Inr (strip cell))
                       else Inr ''N/A'') (\<lambda>reference_range.
               let name_str = strip name_cell; value_str = strip value_cell
               in if name_str \<noteq> [] \<and> value_str \<noteq> []
                  then Inr (lab_tests @ [format_lab_test name_str value_str reference_range])
                  else Inr lab_tests))))"

definition parse_table_data :: "string list list \<Rightarrow> py_error + lab_test list" where
  "parse_table_data table_data =
     (case table_data of
        [] \<Rightarrow> Inr []
      | first_row # _ \<Rightarrow>
          if first_row = [] then Inr []
          else
            (case header_cells (- 1, - 1, - 1) 0 first_row of
               (test_name_col, value_col, range_col) \<Rightarrow>
                 if test_name_col = - 1 \<and> value_col = - 1
                 then fold_err (table_row 0 1 (if length first_row > 2 then 2 else range_col)) []
                        table_data
                 else fold_err (table_row test_name_col value_col range_col) []
                        (drop 1 table_data)))"

subsection \<open>\<^verbatim>\<open>app/image_processor.py\<close> and \<^verbatim>\<open>process_lab_report\<close>\<close>

text \<open>
  The collaborators of the pipeline, over any type \<open>'img\<close> of images, each with the exception
  it may raise: the OpenCV calls of \<^verbatim>\<open>deskew_image\<close>, those of \<^verbatim>\<open>preprocess_image\<close> after its
  guard, the contours \<^verbatim>\<open>detect_table_regions\<close> finds on the enhanced image, \<^verbatim>\<open>image.size\<close>, the
  slice of \<^verbatim>\<open>crop_to_roi\<close>, and Tesseract behind \<^verbatim>\<open>extract_text\<close> and
  \<^verbatim>\<open>extract_text_with_boxes\<close>. A null image is \<open>None\<close>.
\<close>

record 'img collaborators =
  cv_deskew :: "'img \<Rightarrow> py_error + 'img"
  cv_preprocess :: "'img \<Rightarrow> py_error + 'img"
  cv_contours :: "'img \<Rightarrow> py_error + contour list"
  img_size :: "'img \<Rightarrow> int"
  img_crop :: "'img \<Rightarrow> int \<times> int \<times> int \<times> int \<Rightarrow> 'img"
  ocr_string :: "'img \<Rightarrow> py_error + string"
  ocr_boxes :: "'img \<Rightarrow> py_error + text_box list"

text \<open>
  \<^verbatim>\<open>preprocess_image\<close> raises \<^verbatim>\<open>ValueError("Invalid image input")\<close> for a null image and for
  one without pixels. \<^verbatim>\<open>deskew_image\<close> has no guard: \<^verbatim>\<open>image.shape\<close> of \<^verbatim>\<open>None\<close> raises
  \<^verbatim>\<open>AttributeError\<close>.
\<close>

definition preprocess_image :: "'img collaborators \<Rightarrow> 'img option \<Rightarrow> py_error + 'img" where
  "preprocess_image env img =
     (case img of
        None \<Rightarrow> Inl ValueError
      | Some im \<Rightarrow> if img_size env im = 0 then Inl ValueError else cv_preprocess env im)"

definition deskew_image :: "'img collaborators \<Rightarrow> 'img option \<Rightarrow> py_error + 'img" where
  "deskew_image env img =
     (case img of None \<Rightarrow> Inl AttributeError | Some im \<Rightarrow> cv_deskew env im)"

text \<open>
  The body of the loop over the table regions: what the region adds to \<^verbatim>\<open>all_lab_tests\<close>.
  The \<^verbatim>\<open>try\<close> block covers grid extraction and the grid strategy; on any exception the
  region's text is parsed instead, outside any handler.
\<close>

definition process_region ::
  "'img collaborators \<Rightarrow> 'img \<Rightarrow> int \<times> int \<times> int \<times> int \<Rightarrow> py_error + lab_test list"
where
  "process_region env deskewed region =
     bind_err (preprocess_image env (Some (img_crop env deskewed region))) (\<lambda>processed_table.
       case bind_err (bind_err (ocr_boxes env processed_table) extract_table_data) parse_table_data of
         Inr region_lab_tests \<Rightarrow> Inr region_lab_tests
       | Inl e \<Rightarrow> bind_err (ocr_string env processed_table) parse_text)"

text \<open>The last attempt, inside \<^verbatim>\<open>try\<close>: an exception leaves \<^verbatim>\<open>all_lab_tests\<close> empty.\<close>

definition structured_attempt :: "'img collaborators \<Rightarrow> 'img \<Rightarrow> lab_test list" where
  "structured_attempt env processed =
     (case bind_err (bind_err (ocr_boxes env processed) extract_structured_data)
             (\<lambda>structured_data. parse_text (join_with [newline] (map ln_text structured_data))) of
        Inr found \<Rightarrow> found
      | Inl e \<Rightarrow> [])"

text \<open>The loop that removes duplicates, with \<^verbatim>\<open>unique_lab_tests\<close> and the set \<^verbatim>\<open>test_names\<close>.\<close>

fun unique_loop :: "lab_test list \<Rightarrow> string set \<Rightarrow> lab_test list \<Rightarrow> lab_test list" where
  "unique_loop unique_lab_tests test_names [] = unique_lab_tests"
| "unique_loop unique_lab_tests test_names (t # ts) =
     (if test_name t \<notin> test_names
      then unique_loop (unique_lab_tests @ [t]) (insert (test_name t) test_names) ts
      else unique_loop unique_lab_tests test_names ts)"

definition process_lab_report :: "'img collaborators \<Rightarrow> 'img option \<Rightarrow> py_error + lab_test list" where
  "process_lab_report env img =
     bind_err (deskew_image env img) (\<lambda>deskewed.
       bind_err (preprocess_image env (Some deskewed)) (\<lambda>processed.
         bind_err (ocr_string env processed) (\<lambda>full_text.
           bind_err (parse_text full_text) (\<lambda>lab_tests.
             if lab_tests \<noteq> [] then Inr lab_tests
             else
               bind_err (bind_err (cv_contours env deskewed) detect_table_regions) (\<lambda>table_regions.
                 bind_err (collect_results (process_region env deskewed) table_regions) (\<lambda>found.
                   let all_lab_tests = concat found;
                       all_lab_tests' = (if all_lab_tests = [] then structured_attempt env processed
                                         else all_lab_tests)
                   in Inr (unique_loop [] {} all_lab_tests')))))))"

text \<open>
  A document whose recognised text names one test twice; the image is the unit value, the
  OpenCV collaborators return it unchanged and find no contour.
\<close>

definition duplicate_text :: string where
  "duplicate_text = ''Hemoglobin: 14.2 (12.0-16.0)'' @ [newline] @ ''Hemoglobin: 13.0 (12.0-16.0)''"

definition duplicate_document :: "unit collaborators" where
  "duplicate_document =
     \<lparr>cv_deskew = Inr, cv_preprocess = Inr, cv_contours = (\<lambda>im. Inr []), img_size = (\<lambda>im. 480000),
      img_crop = (\<lambda>im region. im), ocr_string = (\<lambda>im. Inr duplicate_text),
      ocr_boxes = (\<lambda>im. Inr [])\<rparr>"

section \<open>Theorems\<close>

subsection \<open>Line grouping\<close>

lemma group_loop_spec:
  assumes "y_tolerance = of_int (bx_height seed) * (1 / 2)"
  shows "group_loop lines seed appended y_tolerance boxes =
           lines @ sort_key bx_x (seed # appended @ takeWhile (joins_line seed) boxes)
             # spec_lines (dropWhile (joins_line seed) boxes)"
  using assms
proof (induction boxes arbitrary: lines seed appended y_tolerance)
  case Nil
  then show ?case by simp
next
  case (Cons box rest)
  show ?case
  proof (cases "joins_line seed box")
    case True
    then have "\<bar>of_int (bx_y box - bx_y seed)\<bar> \<le> y_tolerance"
      using Cons.prems by (simp add: joins_line_def mult.commute)
    then show ?thesis
      using True Cons.IH [OF Cons.prems, of lines "appended @ [box]"] by simp
  next
    case False
    then have "\<not> \<bar>of_int (bx_y box - bx_y seed)\<bar> \<le> y_tolerance"
      using Cons.prems by (simp add: joins_line_def mult.commute)
    then show ?thesis
      using False Cons.IH [of _ box "lines @ [sort_key bx_x (seed # appended)]" "[]"]
      by simp
  qed
qed

text \<open>
  C8. For every list of word boxes, the grouping loop of the code computes exactly the
  grouping the specification describes: boxes sorted by top y; every line seeded by the first
  remaining box, whose y is the fixed reference and half of whose height is the fixed
  tolerance; following boxes join iff they are within the tolerance of the reference, the
  first that is not closes the line and seeds a new one; every line sorted by x.
\<close>

theorem group_by_lines_refines_spec:
  "group_by_lines text_boxes = spec_group_by_lines text_boxes"
proof (cases "sort_key bx_y text_boxes")
  case Nil
  then show ?thesis by (simp add: group_by_lines_def spec_group_by_lines_def)
next
  case (Cons first rest)
  then show ?thesis
    using group_loop_spec [of "of_int (bx_height first) * (1 / 2)" first "[]" "[]" rest]
    by (simp add: group_by_lines_def spec_group_by_lines_def)
qed

subsection \<open>Lines are non-empty sets of the given boxes\<close>

lemma sort_key_eq_Nil: "sort_key f xs = [] \<longleftrightarrow> xs = []"
  using length_sort [of f xs] by (simp only: length_0_conv [symmetric])

lemma spec_lines_nonempty: "l \<in> set (spec_lines bs) \<Longrightarrow> l \<noteq> []"
proof (induction bs rule: spec_lines.induct)
  case 1
  then show ?case by simp
next
  case (2 seed remaining)
  from "2.prems" consider
    (a) "l = sort_key bx_x (seed # takeWhile (joins_line seed) remaining)"
    | (b) "l \<in> set (spec_lines (dropWhile (joins_line seed) remaining))"
    by (auto simp del: sort_key_simps)
  then show ?case
  proof cases
    case a
    then show ?thesis by (simp only: sort_key_eq_Nil) simp
  next
    case b
    then show ?thesis by (rule "2.IH")
  qed
qed

lemma spec_lines_members: "l \<in> set (spec_lines bs) \<Longrightarrow> set l \<subseteq> set bs"
proof (induction bs arbitrary: l rule: spec_lines.induct)
  case 1
  then show ?case by simp
next
  case (2 seed remaining)
  from "2.prems" consider
    (a) "l = sort_key bx_x (seed # takeWhile (joins_line seed) remaining)"
    | (b) "l \<in> set (spec_lines (dropWhile (joins_line seed) remaining))"
    by (auto simp del: sort_key_simps)
  then show ?case
  proof cases
    case a
    then have "set l = insert seed (set (takeWhile (joins_line seed) remaining))"
      by (simp only: set_sort list.set)
    then show ?thesis using set_takeWhileD by fastforce
  next
    case b
    then have "set l \<subseteq> set (dropWhile (joins_line seed) remaining)" by (rule "2.IH")
    then show ?thesis using set_dropWhileD by fastforce
  qed
qed

lemma group_by_lines_spec_lines: "group_by_lines bs = spec_lines (sort_key bx_y bs)"
proof (cases "sort_key bx_y bs")
  case Nil
  then show ?thesis by (simp add: group_by_lines_def)
next
  case (Cons first rest)
  then show ?thesis
    using group_loop_spec [of "of_int (bx_height first) * (1 / 2)" first "[]" "[]" rest]
    by (simp add: group_by_lines_def)
qed

lemma fold_min_Min: "fold min vs (v::'a::linorder) = Min (set (v # vs))"
  by (simp only: Min.set_eq_fold)

lemma fold_max_Max: "fold max vs (v::'a::linorder) = Max (set (v # vs))"
  by (simp only: Max.set_eq_fold)

lemma py_min_Inr: "vs \<noteq> [] \<Longrightarrow> py_min vs = Inr (Min (set vs))"
  by (cases vs) (simp_all add: py_min_def fold_min_Min del: set_simps)

lemma py_max_Inr: "vs \<noteq> [] \<Longrightarrow> py_max vs = Inr (Max (set vs))"
  by (cases vs) (simp_all add: py_max_def fold_max_Max del: set_simps)

lemma line_of_boxes_Inr:
  assumes "line \<noteq> []"
  shows "line_of_boxes line =
    Inr \<lparr>ln_text = join_with '' '' (map bx_text line),
         ln_x = Min (bx_x ` set line), ln_y = Min (bx_y ` set line),
         ln_width = Max ((\<lambda>b. bx_x b + bx_width b) ` set line) - Min (bx_x ` set line),
         ln_height = Max ((\<lambda>b. bx_y b + bx_height b) ` set line) - Min (bx_y ` set line)\<rparr>"
  using assms by (simp add: line_of_boxes_def py_min_Inr py_max_Inr)

lemma line_of_boxes_width:
  assumes "line \<noteq> []" and "\<forall>b \<in> set line. 0 \<le> bx_width b" and "line_of_boxes line = Inr r"
  shows "0 \<le> ln_width r"
proof -
  obtain b where b: "b \<in> set line" using assms(1) by (cases line) auto
  have "Min (bx_x ` set line) \<le> bx_x b" using b by simp
  also have "\<dots> \<le> bx_x b + bx_width b" using assms(2) b by simp
  also have "\<dots> \<le> Max ((\<lambda>b. bx_x b + bx_width b) ` set line)" using b by simp
  finally show ?thesis using assms(3) line_of_boxes_Inr [OF assms(1)] by auto
qed

subsection \<open>Structured lines never fail\<close>

lemma collect_results_Inr:
  "collect_results f xs = Inr rs \<Longrightarrow> list_all2 (\<lambda>x r. f x = Inr r) xs rs"
  by (induction xs arbitrary: rs) (auto split: sum.splits)

lemma collect_results_total:
  "(\<And>x. x \<in> set xs \<Longrightarrow> \<exists>r. f x = Inr r) \<Longrightarrow> \<exists>rs. collect_results f xs = Inr rs"
proof (induction xs)
  case Nil
  then show ?case by simp
next
  case (Cons x xs)
  then obtain r rs where "f x = Inr r" "collect_results f xs = Inr rs"
    by (meson list.set_intros)
  then show ?case by simp
qed

lemma extract_structured_data_total: "\<exists>lines. extract_structured_data bs = Inr lines"
  unfolding extract_structured_data_def
proof (rule collect_results_total)
  fix l assume "l \<in> set (group_by_lines bs)"
  then have "l \<noteq> []" using spec_lines_nonempty by (simp add: group_by_lines_spec_lines)
  then show "\<exists>r. line_of_boxes l = Inr r" using line_of_boxes_Inr by blast
qed

lemma extract_structured_data_widths:
  assumes "extract_structured_data bs = Inr lines" and "\<forall>b \<in> set bs. 0 \<le> bx_width b"
    and "l \<in> set lines"
  shows "0 \<le> ln_width l"
proof -
  have "list_all2 (\<lambda>x r. line_of_boxes x = Inr r) (group_by_lines bs) lines"
    using assms(1) by (simp add: extract_structured_data_def collect_results_Inr)
  then have la: "list_all2 (\<lambda>x r. line_of_boxes x = Inr r) (group_by_lines bs) lines" .
  from assms(3) obtain i where i: "i < length lines" "lines ! i = l"
    by (auto simp: in_set_conv_nth)
  have len: "length (group_by_lines bs) = length lines"
    using la by (rule list_all2_lengthD)
  have "line_of_boxes (group_by_lines bs ! i) = Inr l"
    using list_all2_nthD2 [OF la i(1)] i(2) by simp
  moreover have "group_by_lines bs ! i \<in> set (group_by_lines bs)"
    using i(1) len by simp
  ultimately obtain g where g: "g \<in> set (group_by_lines bs)" "line_of_boxes g = Inr l"
    by blast
  have "g \<noteq> []" and "set g \<subseteq> set bs"
    using g(1) spec_lines_nonempty spec_lines_members [of g "sort_key bx_y bs"]
    by (auto simp: group_by_lines_spec_lines)
  then show ?thesis using line_of_boxes_width [OF _ _ g(2)] assms(2) by blast
qed

subsection \<open>Column detection and the table grid\<close>

lemma np_histogram_total:
  "lo \<le> hi \<Longrightarrow> \<exists>hist edges. np_histogram a bins (lo, hi) = Inr (hist, edges)"
  by (simp add: np_histogram_def Let_def split: prod.splits)

lemma detect_columns_total:
  assumes "\<forall>l \<in> set lines. 0 \<le> ln_width l"
  shows "\<exists>columns. detect_columns lines = Inr columns"
proof (cases "lines = []")
  case True
  then show ?thesis by (simp add: detect_columns_def)
next
  case False
  then obtain l where l: "l \<in> set lines" by (cases lines) auto
  let ?xs = "map (\<lambda>l. rat_of_int (ln_x l)) lines"
  let ?es = "map (\<lambda>l. rat_of_int (ln_x l + ln_width l)) lines"
  have "Min (set ?xs) \<le> of_int (ln_x l)" using l by simp
  also have "\<dots> \<le> of_int (ln_x l + ln_width l)" using assms l by simp
  also have "\<dots> \<le> Max (set ?es)" using l by simp
  finally have "Min (set ?xs) \<le> Max (set ?es)" .
  from np_histogram_total [OF this, of ?xs 20] obtain hist edges
    where "np_histogram ?xs 20 (Min (set ?xs), Max (set ?es)) = Inr (hist, edges)" by blast
  then show ?thesis
    using False by (simp add: detect_columns_def py_min_Inr py_max_Inr Let_def del: set_map)
qed

lemma table_loop_rows:
  assumes "length current_row = length columns"
    and "\<forall>row \<in> set table_data. length row = length columns \<and> any_cell row"
  shows "\<forall>row \<in> set (table_loop columns table_data current_row lines).
           length row = length columns \<and> any_cell row"
  using assms
proof (induction lines arbitrary: table_data current_row)
  case Nil
  then show ?case by simp
next
  case (Cons line rest)
  show ?case
  proof (cases "find_column columns (of_int (ln_x line))")
    case (Some i)
    have "length (current_row[i := strip (ln_text line)]) = length columns"
      using Cons.prems(1) by simp
    from Cons.IH [OF this Cons.prems(2)] show ?thesis using Some by simp
  next
    case None
    show ?thesis
    proof (cases "any_cell current_row")
      case True
      have "\<forall>row \<in> set (table_data @ [current_row]). length row = length columns \<and> any_cell row"
        using Cons.prems True by simp
      from Cons.IH [OF _ this, of "replicate (length columns) []"] show ?thesis
        using None True by simp
    next
      case False
      from Cons.IH [OF Cons.prems] show ?thesis using None False by simp
    qed
  qed
qed

text \<open>
  C10. Whenever grid extraction returns a grid, every row of it has exactly one cell per
  detected column (its length is the number of intervals column detection returned for the
  lines) and holds at least one non-empty cell. Grid extraction does return a grid whenever
  no word box has a negative width.
\<close>

theorem extract_table_data_grid:
  "(\<forall>grid. extract_table_data text_boxes = Inr grid \<longrightarrow>
      (\<exists>lines columns.
         extract_structured_data text_boxes = Inr lines \<and> detect_columns lines = Inr columns \<and>
         (\<forall>row \<in> set grid. length row = length columns \<and> (\<exists>cell \<in> set row. cell \<noteq> [])))) \<and>
   ((\<forall>b \<in> set text_boxes. 0 \<le> bx_width b) \<longrightarrow>
      (\<exists>grid. extract_table_data text_boxes = Inr grid))"
proof (intro conjI allI impI)
  fix grid
  assume g: "extract_table_data text_boxes = Inr grid"
  then obtain lines where l: "extract_structured_data text_boxes = Inr lines"
    by (auto simp: extract_table_data_def split: sum.splits)
  with g obtain columns where c: "detect_columns lines = Inr columns"
    by (auto simp: extract_table_data_def split: sum.splits)
  have grid: "grid = table_loop columns [] (replicate (length columns) []) lines"
    using g l c by (simp add: extract_table_data_def)
  have "\<forall>row \<in> set grid. length row = length columns \<and> any_cell row"
    unfolding grid by (rule table_loop_rows) simp_all
  then have "\<forall>row \<in> set grid. length row = length columns \<and> (\<exists>cell \<in> set row. cell \<noteq> [])"
    by (simp add: any_cell_def list_ex_iff)
  with l c show "\<exists>lines columns.
         extract_structured_data text_boxes = Inr lines \<and> detect_columns lines = Inr columns \<and>
         (\<forall>row \<in> set grid. length row = length columns \<and> (\<exists>cell \<in> set row. cell \<noteq> []))"
    by blast
next
  assume w: "\<forall>b \<in> set text_boxes. 0 \<le> bx_width b"
  obtain lines where l: "extract_structured_data text_boxes = Inr lines"
    using extract_structured_data_total by blast
  have "\<forall>l \<in> set lines. 0 \<le> ln_width l"
    using extract_structured_data_widths [OF l w] by blast
  then obtain columns where "detect_columns lines = Inr columns"
    using detect_columns_total by blast
  with l show "\<exists>grid. extract_table_data text_boxes = Inr grid"
    by (simp add: extract_table_data_def)
qed

theorem extract_table_data_grid_witness:
  "extract_table_data grid_example_boxes = Inr [[''Glucose'', ''250'']] \<and>
   (\<exists>lines columns.
      extract_structured_data grid_example_boxes = Inr lines \<and>
      detect_columns lines = Inr columns \<and> length [''Glucose'', ''250''] = length columns) \<and>
   list_all (\<lambda>b. 0 \<le> bx_width b) grid_example_boxes"
proof -
  have e: "extract_table_data grid_example_boxes = Inr [[''Glucose'', ''250'']]"
    by code_simp
  have w: "list_all (\<lambda>b. 0 \<le> bx_width b) grid_example_boxes"
    by code_simp
  from extract_table_data_grid [of grid_example_boxes] e
  have "\<exists>lines columns.
      extract_structured_data grid_example_boxes = Inr lines \<and>
      detect_columns lines = Inr columns \<and>
      (\<forall>row \<in> set [[''Glucose'', ''250'']]. length row = length columns \<and> (\<exists>cell \<in> set row. cell \<noteq> []))"
    by blast
  then have "\<exists>lines columns.
      extract_structured_data grid_example_boxes = Inr lines \<and>
      detect_columns lines = Inr columns \<and> length [''Glucose'', ''250''] = length columns"
    by auto
  with e w show ?thesis by blast
qed

subsection \<open>Scenario 4: column starts\<close>

lemma fold_max_of_int: "fold max (map rat_of_int vs) (of_int v) = of_int (fold max vs v)"
  by (induction vs arbitrary: v) (simp_all add: of_int_max [symmetric] del: of_int_max)

lemma py_max_of_int: "py_max vs = Inr m \<Longrightarrow> py_max (map rat_of_int vs) = Inr (of_int m)"
  by (cases vs) (auto simp: py_max_def fold_max_of_int)

lemma peak_indices_iff:
  "i \<in> set (peak_indices hist) \<longleftrightarrow>
     1 \<le> i \<and> i + 1 < length hist \<and>
     hist ! i > hist ! (i - 1) \<and> hist ! i > hist ! (i + 1) \<and> hist ! i > 1"
  by (auto simp: peak_indices_def)

lemma scenario_histogram:
  "np_histogram [10, 12, 200, 205] 20 (10, 205) =
     Inr ([2, 0, 0, 0, 0, 0, 0, 0, 0, 0, 0, 0, 0, 0, 0, 0, 0, 0, 0, 2],
          [10, 79 / 4, 59 / 2, 157 / 4, 49, 235 / 4, 137 / 2, 313 / 4, 88,
           391 / 4, 215 / 2, 469 / 4, 127, 547 / 4, 293 / 2, 625 / 4, 166,
           703 / 4, 371 / 2, 781 / 4, 205])"
  by code_simp

lemma scenario_peaks:
  "peak_indices [2, 0, 0, 0, 0, 0, 0, 0, 0, 0, 0, 0, 0, 0, 0, 0, 0, 0, 0, 2] = []"
  by code_simp

text \<open>
  C7, as stated, fails: for four lines with left-x 10, 12, 200 and 205 and a histogram over
  [10, 205], column detection returns one column, (10, 205), hence one column start, not two.
\<close>

theorem detect_columns_scenario_counterexample:
  "detect_columns column_scenario = Inr [(10, 205)]"
  by code_simp

text \<open>
  C7, amended. For any four lines with left-x 10, 12, 200 and 205 whose largest right-x is
  205, column detection infers exactly one column start, 10, with the column (10, 205). The
  20-bin histogram over [10, 205] holds two values in bin 0 and two in bin 19; a bin is a
  peak iff it is an interior bin (index 1 to 18) whose count exceeds both neighbours and is
  greater than 1, so there is no peak, and the global minimum left-x is the only column start.
\<close>

theorem detect_columns_scenario:
  assumes "map ln_x lines = [10, 12, 200, 205]"
    and "py_max (map (\<lambda>l. ln_x l + ln_width l) lines) = Inr 205"
  shows "detect_columns lines = Inr [(10, 205)] \<and>
         (\<exists>hist bin_edges.
            np_histogram (map (\<lambda>l. of_int (ln_x l)) lines) 20 (10, 205) = Inr (hist, bin_edges) \<and>
            hist ! 0 = 2 \<and> hist ! 19 = 2 \<and> length hist = 20 \<and> peak_indices hist = [] \<and>
            (\<forall>i. i \<in> set (peak_indices hist) \<longleftrightarrow>
                 1 \<le> i \<and> i + 1 < length hist \<and>
                 hist ! i > hist ! (i - 1) \<and> hist ! i > hist ! (i + 1) \<and> hist ! i > 1))"
proof -
  have xs: "map (\<lambda>l. rat_of_int (ln_x l)) lines = [10, 12, 200, 205]"
    using arg_cong [OF assms(1), of "map rat_of_int"] by (simp add: comp_def)
  have ne: "lines \<noteq> []" using assms(1) by auto
  have mx: "py_max (map (\<lambda>l. rat_of_int (ln_x l) + rat_of_int (ln_width l)) lines) = Inr 205"
    using py_max_of_int [OF assms(2)] by (simp add: comp_def)
  have mn: "py_min [10, 12, 200, 205 :: rat] = Inr 10"
    by (simp add: py_min_def)
  have "detect_columns lines = Inr [(10, 205)]"
    using ne by (simp add: detect_columns_def xs mx mn scenario_histogram scenario_peaks)
  moreover have "peak_indices [2, 0, 0, 0, 0, 0, 0, 0, 0, 0, 0, 0, 0, 0, 0, 0, 0, 0, 0, 2] = []"
    by (rule scenario_peaks)
  ultimately show ?thesis
    unfolding xs scenario_histogram using peak_indices_iff by (simp del: One_nat_def)
qed

theorem detect_columns_scenario_witness:
  "map ln_x column_scenario_wide = [10, 12, 200, 205] \<and>
   py_max (map (\<lambda>l. ln_x l + ln_width l) column_scenario_wide) = Inr 205 \<and>
   detect_columns column_scenario_wide = Inr [(10, 205)]"
proof -
  have a: "map ln_x column_scenario_wide = [10, 12, 200, 205]"
    by (simp add: column_scenario_wide_def)
  have b: "py_max (map (\<lambda>l. ln_x l + ln_width l) column_scenario_wide) = Inr 205"
    by (simp add: column_scenario_wide_def py_max_def)
  from detect_columns_scenario [OF a b] a b show ?thesis by blast
qed

subsection \<open>Table regions\<close>

lemma regions_loop_filter:
  assumes "\<forall>c \<in> set contours. rect_h c \<noteq> 0"
  shows "regions_loop acc contours =
    Inr (acc @ map ct_rect (filter (\<lambda>c. ct_area c > 1000 \<and> 1 / 2 < aspect c \<and> aspect c < 5) contours))"
  using assms
  by (induction contours arbitrary: acc) (auto simp: rect_h_def aspect_def split: prod.splits)

text \<open>
  C9, as stated, fails: a contour of area 5000 whose bounding rectangle is 50 wide and 100
  high has the aspect ratio 0.5, inside the closed interval [0.5, 5.0], and is not returned;
  nor is one of aspect ratio 5.
\<close>

theorem detect_table_regions_counterexample:
  "detect_table_regions [\<lparr>ct_area = 5000, ct_rect = (20, 30, 50, 100)\<rparr>] = Inr [] \<and>
   detect_table_regions [\<lparr>ct_area = 50000, ct_rect = (20, 30, 500, 100)\<rparr>] = Inr []"
  by code_simp

text \<open>
  C9, amended. Table-region detection returns, in the order the contours were found, exactly
  the bounding rectangles of the contours whose area exceeds 1000 and whose aspect ratio
  width/height lies strictly between 0.5 and 5; it does not raise (bounding rectangles have a
  positive height), and returns the empty list when no contour qualifies.
\<close>

theorem detect_table_regions_filter:
  assumes "\<forall>c \<in> set contours. 0 < rect_h c"
  shows "detect_table_regions contours =
    Inr (map ct_rect (filter (\<lambda>c. ct_area c > 1000 \<and> 1 / 2 < aspect c \<and> aspect c < 5) contours))"
proof -
  have "\<forall>c \<in> set contours. rect_h c \<noteq> 0" using assms by fastforce
  from regions_loop_filter [OF this, of "[]"] show ?thesis
    by (simp add: detect_table_regions_def)
qed

theorem detect_table_regions_filter_witness:
  "detect_table_regions
     [\<lparr>ct_area = 5000, ct_rect = (20, 30, 51, 100)\<rparr>, \<lparr>ct_area = 900, ct_rect = (0, 0, 30, 30)\<rparr>,
      \<lparr>ct_area = 40000, ct_rect = (5, 400, 499, 100)\<rparr>, \<lparr>ct_area = 40000, ct_rect = (5, 600, 600, 100)\<rparr>]
   = Inr [(20, 30, 51, 100), (5, 400, 499, 100)]"
  using detect_table_regions_filter
    [of "[\<lparr>ct_area = 5000, ct_rect = (20, 30, 51, 100)\<rparr>, \<lparr>ct_area = 900, ct_rect = (0, 0, 30, 30)\<rparr>,
      \<lparr>ct_area = 40000, ct_rect = (5, 400, 499, 100)\<rparr>, \<lparr>ct_area = 40000, ct_rect = (5, 600, 600, 100)\<rparr>]"]
  by (simp add: rect_h_def aspect_def)

end
